theory Spec2Isabelle
  imports Complex_Main "HOL-Library.Char_ord" "HOL-Library.List_Lexorder" "HOL-Library.Sublist"
begin

section \<open>certstream-slack: the message pipeline of main.go\<close>

text \<open>
  The program is one function, \<^verbatim>\<open>main\<close> of \<^verbatim>\<open>main.go\<close>: it reads two environment variables,
  compiles the domain pattern, dials the certificate feed and then loops over the decoded
  messages for ever. Everything the process does to the outside world is recorded as a trace
  of effects: log entries (with their level and fields), calls of the Slack webhook and the
  exit of the process. Go strings are byte strings, so they are \<^typ>\<open>string\<close>; with
  \<^verbatim>\<open>Char_ord\<close> and \<^verbatim>\<open>List_Lexorder\<close> their order is the byte-wise lexicographic order
  that Go's \<^verbatim>\<open><\<close> on strings and \<^verbatim>\<open>sort.Strings\<close> use.
\<close>

subsection \<open>Decoded JSON and the effects of the process\<close>

text \<open>
  What \<^verbatim>\<open>conn.ReadJSON(&msg)\<close> stores into an \<^verbatim>\<open>interface{}\<close>: nil, bool, float64, string,
  a slice or a map with string keys. A map is an association list read with \<^const>\<open>map_of\<close>.
\<close>

datatype json =
    JNull
  | JBool bool
  | JNumber real
  | JString string
  | JArray "json list"
  | JObject "(string \<times> json) list"

text \<open>
  An event is the map of a decoded JSON object (section 3 of the specification: a structured
  event with a \<^verbatim>\<open>message_type\<close> field). The feed may also deliver values that are not
  objects; the loop meets them before an event is looked at.
\<close>

type_synonym event = "(string \<times> json) list"

type_synonym error = string

datatype level = InfoLevel | ErrorLevel | FatalLevel

text \<open>
  \<^verbatim>\<open>Log l msg fields\<close> is one logrus entry (\<^verbatim>\<open>WithError(err)\<close> is the field \<^verbatim>\<open>error\<close>),
  \<^verbatim>\<open>Send url text\<close> one call \<^verbatim>\<open>slack.Send(url, "", Payload{Text: text})\<close>, and
  \<^verbatim>\<open>Exit c\<close> the end of the process with status \<^verbatim>\<open>c\<close>.
\<close>

datatype effect =
    Log level string "(string \<times> string) list"
  | Send string string
  | Exit int

fun is_Send :: "effect \<Rightarrow> bool" where
  "is_Send (Send url text) = True"
| "is_Send _ = False"

fun is_Exit :: "effect \<Rightarrow> bool" where
  "is_Exit (Exit c) = True"
| "is_Exit _ = False"

fun is_Log :: "effect \<Rightarrow> bool" where
  "is_Log (Log l msg fields) = True"
| "is_Log _ = False"

subsection \<open>The libraries main.go calls\<close>

text \<open>
  Modelled from the spec: the package \<^verbatim>\<open>github.com/jmoiron/jsonq\<close> is not among the sources.
  The specification describes it as a query by path into an untyped nested structure, where
  a missing or malformed field is an extraction failure and a failed extraction of a string
  leaves the empty value. \<^verbatim>\<open>query\<close> is one step of the path into an object; none of the
  path elements that \<^verbatim>\<open>main\<close> uses is a number, so indexing into arrays is left out.
\<close>

fun query :: "json \<Rightarrow> string \<Rightarrow> error + json" where
  "query (JObject kvs) q =
     (case map_of kvs q of
        None \<Rightarrow> Inl ''object does not contain field''
      | Some val \<Rightarrow> Inr val)"
| "query _ q = Inl ''object lookup on non-object''"

fun rquery :: "json \<Rightarrow> string list \<Rightarrow> error + json" where
  "rquery blob [] = (case blob of JNull \<Rightarrow> Inl ''nil value found'' | _ \<Rightarrow> Inr blob)"
| "rquery blob (q # s) = (case query blob q of Inl err \<Rightarrow> Inl err | Inr val \<Rightarrow> rquery val s)"

fun stringFromInterface :: "json \<Rightarrow> string \<times> error option" where
  "stringFromInterface (JString s) = (s, None)"
| "stringFromInterface _ = ('''', Some ''expected string value'')"

text \<open>
  \<^verbatim>\<open>jq.String(s...)\<close> returns Go's pair of a value and an error: \<^verbatim>\<open>main\<close> reads the value
  also when the error is not nil.
\<close>

definition jq_String :: "json \<Rightarrow> string list \<Rightarrow> string \<times> error option" where
  "jq_String blob s =
     (case rquery blob s of
        Inl err \<Rightarrow> ('''', Some err)
      | Inr val \<Rightarrow> stringFromInterface val)"

fun stringsFromInterfaces :: "json list \<Rightarrow> error + string list" where
  "stringsFromInterfaces [] = Inr []"
| "stringsFromInterfaces (val # vals) =
     (case stringFromInterface val of
        (s, Some err) \<Rightarrow> Inl err
      | (s, None) \<Rightarrow>
          (case stringsFromInterfaces vals of
             Inl err \<Rightarrow> Inl err
           | Inr ss \<Rightarrow> Inr (s # ss)))"

text \<open>
  \<^verbatim>\<open>jq.ArrayOfStrings(s...)\<close>: \<^verbatim>\<open>main\<close> drops the slice when the error is not nil, so the
  result is the error or the slice.
\<close>

definition jq_ArrayOfStrings :: "json \<Rightarrow> string list \<Rightarrow> error + string list" where
  "jq_ArrayOfStrings blob s =
     (case rquery blob s of
        Inl err \<Rightarrow> Inl err
      | Inr (JArray vals) \<Rightarrow> stringsFromInterfaces vals
      | Inr _ \<Rightarrow> Inl ''expected json array'')"

text \<open>\<^verbatim>\<open>strings.Join(elems, sep)\<close> of Go's standard library.\<close>

fun strings_Join :: "string list \<Rightarrow> string \<Rightarrow> string" where
  "strings_Join [] sep = ''''"
| "strings_Join [e] sep = e"
| "strings_Join (e # elems) sep = e @ sep @ strings_Join elems sep"

text \<open>
  Modelled from the spec: \<^verbatim>\<open>english.OxfordWordSeries\<close> of the package
  \<^verbatim>\<open>github.com/dustin/go-humanize\<close> is not among the sources. The specification: the list is
  joined into a natural-language series, comma-separated with the final item joined by the
  conjunction; two items are joined by the conjunction alone; one item is rendered alone.
  The series has the serial (Oxford) comma that gives the function its name.
\<close>

definition OxfordWordSeries :: "string list \<Rightarrow> string \<Rightarrow> string" where
  "OxfordWordSeries words conjunction =
     (if length words = 0 then ''''
      else if length words = 1 then hd words
      else if length words = 2 then strings_Join words ('' '' @ conjunction @ '' '')
      else strings_Join (butlast words) '', '' @ '', '' @ conjunction @ '' '' @ last words)"

text \<open>
  \<^verbatim>\<open>fmt.Sprintf("%d", i)\<close>: the decimal digits of an integer, with a minus sign when it is
  negative.
\<close>

definition digit :: "nat \<Rightarrow> char" where
  "digit d = char_of (48 + d)"

function decimal :: "nat \<Rightarrow> string" where
  "decimal n = (if n < 10 then [digit n] else decimal (n div 10) @ [digit (n mod 10)])"
  by pat_completeness auto
termination
  by (relation "measure id") auto

declare decimal.simps [simp del]

definition Sprintf_d :: "int \<Rightarrow> string" where
  "Sprintf_d i = (if i < 0 then CHR ''-'' # decimal (nat (- i)) else decimal (nat i))"

text \<open>
  \<^verbatim>\<open>strings.Replace(s, ":", "", -1)\<close>: every occurrence of the one-byte string \<^verbatim>\<open>":"\<close> is
  replaced by the empty string.
\<close>

definition strings_Replace_colon :: "string \<Rightarrow> string" where
  "strings_Replace_colon s = filter (\<lambda>c. c \<noteq> CHR '':'') s"

text \<open>\<^verbatim>\<open>sort.Strings\<close>: ascending order of Go's \<^verbatim>\<open><\<close> on strings.\<close>

definition sort_Strings :: "string list \<Rightarrow> string list" where
  "sort_Strings x = sort x"

text \<open>
  \<^verbatim>\<open>log.Fatal\<close> of logrus writes the entry at the fatal level and then calls \<^verbatim>\<open>os.Exit(1)\<close>.
\<close>

definition log_Fatal :: "string \<Rightarrow> (string \<times> string) list \<Rightarrow> effect list" where
  "log_Fatal msg fields = [Log FatalLevel msg fields, Exit 1]"

subsection \<open>The body of the loop\<close>

text \<open>
  Lines 84 to 91: the loop over \<^verbatim>\<open>domains\<close> that appends each matching domain, wrapped in
  backticks, to \<^verbatim>\<open>matches\<close>. \<^verbatim>\<open>domainRegex\<close> is \<^verbatim>\<open>domainRegex.MatchString\<close> of the compiled
  pattern.
\<close>

fun collect_matches :: "(string \<Rightarrow> bool) \<Rightarrow> string list \<Rightarrow> string list \<Rightarrow> string list" where
  "collect_matches domainRegex [] matches = matches"
| "collect_matches domainRegex (domain # domains) matches =
     (if \<not> domainRegex domain then collect_matches domainRegex domains matches
      else collect_matches domainRegex domains (matches @ [''`'' @ domain @ ''`'']))"

text \<open>
  Lines 72 to 125, one iteration of the loop once the query \<^verbatim>\<open>jq\<close> over the decoded
  message exists: \<^verbatim>\<open>msg\<close> is the map the query holds. \<^verbatim>\<open>send\<close> is \<^verbatim>\<open>slack.Send\<close>: the
  errors the webhook returns for a URL and a text.
\<close>

definition handle_event ::
  "(string \<Rightarrow> bool) \<Rightarrow> (string \<Rightarrow> string \<Rightarrow> error list) \<Rightarrow> string \<Rightarrow> event \<Rightarrow> effect list" where
  "handle_event domainRegex send webhookURL msg =
     (let jq = JObject msg;
          (t, _) = jq_String jq [''message_type'']
      in if t \<noteq> ''certificate_update'' then []
      else
        case jq_ArrayOfStrings jq [''data'', ''leaf_cert'', ''all_domains''] of
          Inl err \<Rightarrow> [Log ErrorLevel ''couldn't get domains'' [(''error'', err)]]
        | Inr domains \<Rightarrow>
            let matches = collect_matches domainRegex domains []
            in if length matches = 0 then []
            else
              let matches = sort_Strings matches;
                  additionalDomains = int (length domains) - int (length matches);
                  matches = (if additionalDomains > 0
                             then matches @ [Sprintf_d additionalDomains @ '' others'']
                             else matches);
                  (fingerprint, err) = jq_String jq [''data'', ''leaf_cert'', ''fingerprint''];
                  logged = (case err of
                              Some e \<Rightarrow> [Log ErrorLevel
                                ''could not parse fingerprint from matching certificate''
                                [(''error'', e)]]
                            | None \<Rightarrow> []);
                  certURL = ''https://crt.sh/?q='' @ strings_Replace_colon fingerprint;
                  text = ''Found matching certificate for ''
                           @ OxfordWordSeries matches ''and'' @ '': '' @ certURL
              in logged @ [Send webhookURL text]
                   @ map (\<lambda>e. Log ErrorLevel ''error sending webhook''
                                [(''error'', e), (''fingerprint'', fingerprint)])
                         (send webhookURL text))"

subsection \<open>The loop and the start of the process\<close>

text \<open>
  Modelled from the spec: \<^verbatim>\<open>jsonq.NewQuery\<close> is not among the sources. The query holds the
  decoded value as a map with string keys (\<^verbatim>\<open>data.(map[string]interface{})\<close>); for any
  other value, such as \<^verbatim>\<open>null\<close>, an array or a string, the type assertion fails and the Go
  runtime panics. \<^verbatim>\<open>None\<close> is that panic.
\<close>

fun NewQuery :: "json \<Rightarrow> event option" where
  "NewQuery (JObject kvs) = Some kvs"
| "NewQuery _ = None"

text \<open>
  A panic that nothing recovers ends the process with status 2; the logger writes no entry.
\<close>

definition go_panic :: "effect list" where
  "go_panic = [Exit 2]"

text \<open>
  Lines 62 to 126. The feed is the list of the results of the successive calls of
  \<^verbatim>\<open>conn.ReadJSON\<close>: an error or a decoded value, which may be any JSON value. At the end
  of the list the process is blocked in the next read and nothing more happens.
\<close>

fun loop ::
  "(string \<Rightarrow> bool) \<Rightarrow> (string \<Rightarrow> string \<Rightarrow> error list) \<Rightarrow> string \<Rightarrow> (error + json) list
     \<Rightarrow> effect list" where
  "loop domainRegex send webhookURL [] = []"
| "loop domainRegex send webhookURL (Inl err # feed) =
     log_Fatal ''error decoding JSON'' [(''error'', err)]"
| "loop domainRegex send webhookURL (Inr msg # feed) =
     (case NewQuery msg of
        None \<Rightarrow> go_panic
      | Some jq \<Rightarrow>
          handle_event domainRegex send webhookURL jq @ loop domainRegex send webhookURL feed)"

text \<open>
  What \<^verbatim>\<open>main\<close> finds outside: the environment, \<^verbatim>\<open>regexp.Compile\<close> (an error, or the
  \<^verbatim>\<open>MatchString\<close> of the compiled pattern), the result of dialling the feed, the feed and the
  webhook.
\<close>

record world =
  Getenv :: "string \<Rightarrow> string"
  regexp_Compile :: "string \<Rightarrow> error + (string \<Rightarrow> bool)"
  Dial :: "string \<Rightarrow> error option"
  ReadJSON :: "(error + json) list"
  slack_Send :: "string \<Rightarrow> string \<Rightarrow> error list"

definition certStreamURL :: string where
  "certStreamURL = ''wss://certstream.calidog.io''"

definition main :: "world \<Rightarrow> effect list" where
  "main w =
     (let webhookURL = Getenv w ''SLACK_WEBHOOK_URL''
      in if webhookURL = '''' then log_Fatal ''SLACK_WEBHOOK_URL must be set'' []
      else
        let domainPattern = Getenv w ''DOMAIN_PATTERN''
        in if domainPattern = '''' then log_Fatal ''DOMAIN_PATTERN must be set'' []
        else
          case regexp_Compile w domainPattern of
            Inl err \<Rightarrow> log_Fatal ''invalid DOMAIN_PATTERN'' [(''error'', err)]
          | Inr domainRegex \<Rightarrow>
              (case Dial w certStreamURL of
                 Some err \<Rightarrow> log_Fatal ''could not connect to certstream'' [(''error'', err)]
               | None \<Rightarrow>
                   Log InfoLevel ''watching for certificates'' [(''domainPattern'', domainPattern)]
                     # loop domainRegex (slack_Send w) webhookURL (ReadJSON w)))"

text \<open>The exit status of a trace: that of its first \<^verbatim>\<open>Exit\<close>, if there is one.\<close>

fun exit_status :: "effect list \<Rightarrow> int option" where
  "exit_status [] = None"
| "exit_status (Exit c # tr) = Some c"
| "exit_status (_ # tr) = exit_status tr"

text \<open>
  A pattern without metacharacters, such as \<^verbatim>\<open>heptio\<close>, matches the strings that contain it:
  \<^verbatim>\<open>MatchString\<close> is not anchored.
\<close>

fun literal_MatchString :: "string \<Rightarrow> string \<Rightarrow> bool" where
  "literal_MatchString pat [] = (pat = [])"
| "literal_MatchString pat (c # s) = (prefix pat (c # s) \<or> literal_MatchString pat s)"

subsection \<open>Notions used in the statements\<close>

text \<open>A domain as it is shown in Slack, and the paths of the three fields that are read.\<close>

definition backticks :: "string \<Rightarrow> string" where
  "backticks domain = ''`'' @ domain @ ''`''"

definition all_domains :: "event \<Rightarrow> error + string list" where
  "all_domains msg = jq_ArrayOfStrings (JObject msg) [''data'', ''leaf_cert'', ''all_domains'']"

definition fingerprint :: "event \<Rightarrow> string \<times> error option" where
  "fingerprint msg = jq_String (JObject msg) [''data'', ''leaf_cert'', ''fingerprint'']"

definition is_certificate_update :: "event \<Rightarrow> bool" where
  "is_certificate_update msg \<longleftrightarrow>
     map_of msg ''message_type'' = Some (JString ''certificate_update'')"

text \<open>A certificate update with the given domains and, if any, the given fingerprint.\<close>

definition certificate_update :: "string list \<Rightarrow> string option \<Rightarrow> event" where
  "certificate_update domains fp =
     [(''message_type'', JString ''certificate_update''),
      (''data'', JObject [(''leaf_cert'', JObject
         ((''all_domains'', JArray (map JString domains))
            # (case fp of None \<Rightarrow> [] | Some f \<Rightarrow> [(''fingerprint'', JString f)])))])]"

text \<open>A feed in which every value that was decoded is a JSON object.\<close>

fun is_object :: "json \<Rightarrow> bool" where
  "is_object (JObject kvs) = True"
| "is_object _ = False"

definition objects_only :: "(error + json) list \<Rightarrow> bool" where
  "objects_only feed = list_all (\<lambda>r. case r of Inl err \<Rightarrow> True | Inr msg \<Rightarrow> is_object msg) feed"

text \<open>The world of the examples: both variables set, a pattern that compiles, a feed that
  connects.\<close>

definition example_world ::
  "(error + json) list \<Rightarrow> (string \<Rightarrow> string \<Rightarrow> error list) \<Rightarrow> world" where
  "example_world feed send =
     \<lparr>Getenv = (\<lambda>name. if name = ''SLACK_WEBHOOK_URL'' then ''hook''
                       else if name = ''DOMAIN_PATTERN'' then ''heptio'' else ''''),
      regexp_Compile = (\<lambda>pattern. Inr (literal_MatchString pattern)),
      Dial = (\<lambda>url. None),
      ReadJSON = feed,
      slack_Send = send\<rparr>"

section \<open>Properties\<close>

subsection \<open>The paths through one iteration\<close>

lemma collect_matches_eq:
  "collect_matches re domains matches = matches @ map backticks (filter re domains)"
  by (induction domains arbitrary: matches) (simp_all add: backticks_def)

lemma message_type_eq:
  "fst (jq_String (JObject msg) [''message_type'']) = ''certificate_update''
     \<longleftrightarrow> is_certificate_update msg"
  by (auto simp: jq_String_def is_certificate_update_def split: option.splits json.splits)

lemma handle_event_skip:
  "\<not> is_certificate_update msg \<Longrightarrow> handle_event re send url msg = []"
  using message_type_eq [of msg]
  by (simp add: handle_event_def Let_def case_prod_beta)

lemma handle_event_domains_error:
  "is_certificate_update msg \<Longrightarrow> all_domains msg = Inl err \<Longrightarrow>
   handle_event re send url msg = [Log ErrorLevel ''couldn't get domains'' [(''error'', err)]]"
  using message_type_eq [of msg]
  by (simp add: handle_event_def Let_def all_domains_def case_prod_beta)

lemma handle_event_no_match:
  "all_domains msg = Inr domains \<Longrightarrow> filter re domains = [] \<Longrightarrow>
   handle_event re send url msg = []"
  by (simp add: handle_event_def Let_def all_domains_def collect_matches_eq case_prod_beta)

lemma Sprintf_d_nat: "Sprintf_d (int n) = decimal n"
  by (simp add: Sprintf_d_def)

lemma handle_event_match:
  assumes "is_certificate_update msg" and "all_domains msg = Inr domains"
    and "filter re domains \<noteq> []" and "fingerprint msg = (fp, err)"
    and "matches = sort (map backticks (filter re domains))"
    and "entries = (if length (filter re domains) < length domains
                    then matches @ [decimal (length domains - length (filter re domains)) @ '' others'']
                    else matches)"
    and "text = ''Found matching certificate for '' @ OxfordWordSeries entries ''and''
                 @ '': '' @ ''https://crt.sh/?q='' @ filter (\<lambda>c. c \<noteq> CHR '':'') fp"
  shows "handle_event re send url msg =
           (case err of
              Some e \<Rightarrow> [Log ErrorLevel ''could not parse fingerprint from matching certificate''
                           [(''error'', e)]]
            | None \<Rightarrow> [])
           @ [Send url text]
           @ map (\<lambda>e. Log ErrorLevel ''error sending webhook'' [(''error'', e), (''fingerprint'', fp)])
               (send url text)"
proof -
  have len: "length (filter re domains) \<le> length domains" by simp
  have "int (length domains) - int (length (filter re domains)) =
        int (length domains - length (filter re domains))"
    using len by simp
  then have sp: "Sprintf_d (int (length domains) - int (length (filter re domains))) =
        decimal (length domains - length (filter re domains))"
    by (simp only: Sprintf_d_nat)
  show ?thesis
    using assms message_type_eq [of msg]
    by (simp add: handle_event_def Let_def all_domains_def fingerprint_def collect_matches_eq
        sort_Strings_def sp strings_Replace_colon_def case_prod_beta)
qed

lemma filter_is_Send_logs [simp]: "filter is_Send (map (\<lambda>e. Log l m (f e)) es) = []"
  by (induction es) simp_all

lemma exit_status_append:
  "exit_status (xs @ ys) = (case exit_status xs of Some c \<Rightarrow> Some c | None \<Rightarrow> exit_status ys)"
  by (induction xs rule: exit_status.induct) simp_all

lemma exit_status_logs [simp]: "exit_status (map (\<lambda>e. Log l m (f e)) es) = None"
  by (induction es) simp_all

lemma handle_event_sends:
  assumes "is_certificate_update msg" and "all_domains msg = Inr domains"
    and "filter re domains \<noteq> []" and "fingerprint msg = (fp, err)"
    and "matches = sort (map backticks (filter re domains))"
    and "entries = (if length (filter re domains) < length domains
                    then matches @ [decimal (length domains - length (filter re domains)) @ '' others'']
                    else matches)"
    and "text = ''Found matching certificate for '' @ OxfordWordSeries entries ''and''
                 @ '': '' @ ''https://crt.sh/?q='' @ filter (\<lambda>c. c \<noteq> CHR '':'') fp"
  shows "filter is_Send (handle_event re send url msg) = [Send url text]"
  by (simp add: handle_event_match [OF assms] split: option.splits)

lemma jq_String_error: "jq_String blob s = (v, Some e) \<Longrightarrow> v = ''''"
  by (auto simp: jq_String_def split: sum.splits elim: stringFromInterface.elims)

lemma handle_event_exit_status: "exit_status (handle_event re send url msg) = None"
proof (cases "is_certificate_update msg")
  case False
  then show ?thesis by (simp add: handle_event_skip)
next
  case cu: True
  show ?thesis
  proof (cases "all_domains msg")
    case (Inl err)
    with cu show ?thesis by (simp add: handle_event_domains_error)
  next
    case (Inr domains)
    show ?thesis
    proof (cases "filter re domains = []")
      case True
      with Inr show ?thesis by (simp add: handle_event_no_match)
    next
      case False
      obtain fp err where fp: "fingerprint msg = (fp, err)" by (cases "fingerprint msg")
      show ?thesis
        by (simp add: handle_event_match [OF cu Inr False fp refl refl refl] exit_status_append
            split: option.splits)
    qed
  qed
qed

lemma matching_filter: "\<exists>domain\<in>set domains. re domain \<Longrightarrow> filter re domains \<noteq> []"
  by (simp add: filter_empty_conv)

lemma count_list_filter_neq: "count_list (filter (\<lambda>c. c \<noteq> a) s) a = 0"
  by (induction s) simp_all

lemma handle_event_cases:
  obtains (skip) "handle_event re send url msg = []"
  | (error) err where "handle_event re send url msg =
        [Log ErrorLevel ''couldn't get domains'' [(''error'', err)]]"
  | (match) domains fp err where "is_certificate_update msg" and "all_domains msg = Inr domains"
      and "filter re domains \<noteq> []" and "fingerprint msg = (fp, err)"
proof (cases "is_certificate_update msg")
  case False
  then show ?thesis by (intro skip handle_event_skip)
next
  case cu: True
  show ?thesis
  proof (cases "all_domains msg")
    case (Inl err)
    with cu show ?thesis by (intro error handle_event_domains_error)
  next
    case (Inr domains)
    show ?thesis
    proof (cases "filter re domains = []")
      case True
      with Inr show ?thesis by (intro skip handle_event_no_match)
    next
      case False
      obtain fp err where "fingerprint msg = (fp, err)" by (cases "fingerprint msg")
      with cu Inr False show ?thesis by (rule match)
    qed
  qed
qed

lemma Send_in_match:
  assumes "Send u t \<in> set (pre @ [Send url text] @ map (\<lambda>e. Log l m (f e)) es)"
    and "\<forall>x\<in>set pre. is_Log x"
  shows "u = url \<and> t = text"
  using assms by auto

subsection \<open>The example events\<close>

lemma stringsFromInterfaces_JString: "stringsFromInterfaces (map JString ds) = Inr ds"
  by (induction ds) simp_all

lemma certificate_update_is: "is_certificate_update (certificate_update ds fp)"
  by (simp add: is_certificate_update_def certificate_update_def)

lemma certificate_update_domains: "all_domains (certificate_update ds fp) = Inr ds"
  by (simp add: all_domains_def certificate_update_def jq_ArrayOfStrings_def
      stringsFromInterfaces_JString)

lemma certificate_update_fingerprint: "fingerprint (certificate_update ds (Some f)) = (f, None)"
  by (simp add: fingerprint_def certificate_update_def jq_String_def)

lemma certificate_update_no_fingerprint:
  "fingerprint (certificate_update ds None) = ('''', Some ''object does not contain field'')"
  by (simp add: fingerprint_def certificate_update_def jq_String_def)

subsection \<open>The word series\<close>

lemma OxfordWordSeries_one: "OxfordWordSeries [a] conjunction = a"
  by (simp add: OxfordWordSeries_def)

lemma OxfordWordSeries_two:
  "OxfordWordSeries [a, b] conjunction = a @ '' '' @ conjunction @ '' '' @ b"
  by (simp add: OxfordWordSeries_def)

lemma OxfordWordSeries_more:
  "OxfordWordSeries (a # b # c # ws) conjunction =
     strings_Join (butlast (a # b # c # ws)) '', '' @ '', '' @ conjunction @ '' ''
       @ last (a # b # c # ws)"
  by (simp add: OxfordWordSeries_def)

lemma strings_Join_hd: "elems \<noteq> [] \<Longrightarrow> \<exists>r. strings_Join elems sep = hd elems @ r"
  by (induction elems sep rule: strings_Join.induct) auto

lemma OxfordWordSeries_hd:
  assumes "words \<noteq> []"
  shows "\<exists>r. OxfordWordSeries words conjunction = hd words @ r"
proof (cases words)
  case Nil
  with assms show ?thesis by simp
next
  case (Cons a ws)
  show ?thesis
  proof (cases ws)
    case Nil
    with Cons show ?thesis by (simp add: OxfordWordSeries_def)
  next
    case ws: (Cons b ws')
    show ?thesis
    proof (cases ws')
      case Nil
      with Cons ws show ?thesis by (simp add: OxfordWordSeries_def)
    next
      case (Cons c ws'')
      obtain r where "strings_Join (butlast (a # b # c # ws'')) '', '' = a @ r"
        using strings_Join_hd [of "butlast (a # b # c # ws'')" "'', ''"] by auto
      then show ?thesis
        using \<open>words = a # ws\<close> ws Cons by (simp add: OxfordWordSeries_more)
    qed
  qed
qed

subsection \<open>Messages that are not certificate updates\<close>



subsection \<open>Certificate updates without a matching domain\<close>

text \<open>
  C3. For a certificate update whose \<^verbatim>\<open>all_domains\<close> was extracted and in which no domain
  matches the pattern (the empty list included, whatever the number of domains), the
  iteration has no effect: no notification is sent.
\<close>

theorem no_match_no_notification:
  assumes "is_certificate_update msg" and "all_domains msg = Inr domains"
    and "\<forall>domain\<in>set domains. \<not> domainRegex domain"
  shows "handle_event domainRegex send webhookURL msg = []"
proof -
  from assms(3) have "filter domainRegex domains = []" by (simp add: filter_empty_conv)
  with assms(2) show ?thesis by (rule handle_event_no_match)
qed

theorem no_match_no_notification_witness:
  "is_certificate_update (certificate_update [''x.com''] (Some ''AA:BB''))
   \<and> all_domains (certificate_update [''x.com''] (Some ''AA:BB'')) = Inr [''x.com'']
   \<and> \<not> literal_MatchString ''nomatch'' ''x.com''
   \<and> handle_event (literal_MatchString ''nomatch'') (\<lambda>url text. []) ''hook''
         (certificate_update [''x.com''] (Some ''AA:BB'')) = []
   \<and> all_domains (certificate_update [] (Some ''AA:BB'')) = Inr []
   \<and> handle_event (\<lambda>domain. True) (\<lambda>url text. []) ''hook''
         (certificate_update [] (Some ''AA:BB'')) = []"
proof -
  have h1: "is_certificate_update (certificate_update [''x.com''] (Some ''AA:BB''))"
    by (rule certificate_update_is)
  have h2: "all_domains (certificate_update [''x.com''] (Some ''AA:BB'')) = Inr [''x.com'']"
    by (rule certificate_update_domains)
  have h3: "\<not> literal_MatchString ''nomatch'' ''x.com''"
    by simp
  then have h3': "\<forall>domain\<in>set [''x.com'']. \<not> literal_MatchString ''nomatch'' domain"
    by simp
  have c: "handle_event (literal_MatchString ''nomatch'') (\<lambda>url text. []) ''hook''
         (certificate_update [''x.com''] (Some ''AA:BB'')) = []"
    by (rule no_match_no_notification [OF h1 h2 h3'])
  have e1: "is_certificate_update (certificate_update [] (Some ''AA:BB''))"
    by (rule certificate_update_is)
  have e2: "all_domains (certificate_update [] (Some ''AA:BB'')) = Inr []"
    by (rule certificate_update_domains)
  have e3: "\<forall>domain\<in>set []. \<not> (\<lambda>domain. True) domain"
    by simp
  have c': "handle_event (\<lambda>domain. True) (\<lambda>url text. []) ''hook''
         (certificate_update [] (Some ''AA:BB'')) = []"
    by (rule no_match_no_notification [OF e1 e2 e3])
  show ?thesis
    by (rule conjI [OF h1 conjI [OF h2 conjI [OF h3 conjI [OF c conjI [OF e2 c']]]]])
qed

subsection \<open>Failure to extract the domains\<close>

text \<open>
  C8. For a certificate update whose \<^verbatim>\<open>all_domains\<close> cannot be extracted, the iteration
  logs the error at the error level and does nothing else: no notification is sent, the
  process does not exit, and the loop goes on with the next message.
\<close>

theorem domains_failure_skips_event:
  assumes "is_certificate_update msg" and "all_domains msg = Inl err"
  shows "handle_event domainRegex send webhookURL msg =
           [Log ErrorLevel ''couldn't get domains'' [(''error'', err)]]
       \<and> loop domainRegex send webhookURL (Inr (JObject msg) # feed) =
           Log ErrorLevel ''couldn't get domains'' [(''error'', err)]
             # loop domainRegex send webhookURL feed"
  using assms by (simp add: handle_event_domains_error)

theorem domains_failure_skips_event_witness:
  "is_certificate_update
     [(''message_type'', JString ''certificate_update''),
      (''data'', JObject [(''leaf_cert'', JObject [(''fingerprint'', JString ''AA:BB'')])])]
   \<and> all_domains
     [(''message_type'', JString ''certificate_update''),
      (''data'', JObject [(''leaf_cert'', JObject [(''fingerprint'', JString ''AA:BB'')])])]
     = Inl ''object does not contain field''
   \<and> handle_event (\<lambda>domain. True) (\<lambda>url text. []) ''hook''
     [(''message_type'', JString ''certificate_update''),
      (''data'', JObject [(''leaf_cert'', JObject [(''fingerprint'', JString ''AA:BB'')])])]
     = [Log ErrorLevel ''couldn't get domains'' [(''error'', ''object does not contain field'')]]
   \<and> loop (\<lambda>domain. True) (\<lambda>url text. []) ''hook''
     [Inr (JObject [(''message_type'', JString ''certificate_update''),
      (''data'', JObject [(''leaf_cert'', JObject [(''fingerprint'', JString ''AA:BB'')])])])]
     = [Log ErrorLevel ''couldn't get domains'' [(''error'', ''object does not contain field'')]]
   \<and> all_domains
     [(''message_type'', JString ''certificate_update''),
      (''data'', JObject [(''leaf_cert'', JObject
         [(''all_domains'', JArray [JString ''a.heptio.com'', JNumber 7])])])]
     = Inl ''expected string value''
   \<and> handle_event (\<lambda>domain. True) (\<lambda>url text. []) ''hook''
     [(''message_type'', JString ''certificate_update''),
      (''data'', JObject [(''leaf_cert'', JObject
         [(''all_domains'', JArray [JString ''a.heptio.com'', JNumber 7])])])]
     = [Log ErrorLevel ''couldn't get domains'' [(''error'', ''expected string value'')]]"
proof -
  have h1: "is_certificate_update
     [(''message_type'', JString ''certificate_update''),
      (''data'', JObject [(''leaf_cert'', JObject [(''fingerprint'', JString ''AA:BB'')])])]"
    by (simp add: is_certificate_update_def)
  have h2: "all_domains
     [(''message_type'', JString ''certificate_update''),
      (''data'', JObject [(''leaf_cert'', JObject [(''fingerprint'', JString ''AA:BB'')])])]
     = Inl ''object does not contain field''"
    by (simp add: all_domains_def jq_ArrayOfStrings_def)
  have c: "handle_event (\<lambda>domain. True) (\<lambda>url text. []) ''hook''
     [(''message_type'', JString ''certificate_update''),
      (''data'', JObject [(''leaf_cert'', JObject [(''fingerprint'', JString ''AA:BB'')])])]
     = [Log ErrorLevel ''couldn't get domains'' [(''error'', ''object does not contain field'')]]
   \<and> loop (\<lambda>domain. True) (\<lambda>url text. []) ''hook''
     [Inr (JObject [(''message_type'', JString ''certificate_update''),
      (''data'', JObject [(''leaf_cert'', JObject [(''fingerprint'', JString ''AA:BB'')])])])]
     = [Log ErrorLevel ''couldn't get domains'' [(''error'', ''object does not contain field'')]]"
    using domains_failure_skips_event [OF h1 h2, of "\<lambda>domain. True" "\<lambda>url text. []" "''hook''" "[]"]
    by simp
  have m1: "is_certificate_update
     [(''message_type'', JString ''certificate_update''),
      (''data'', JObject [(''leaf_cert'', JObject
         [(''all_domains'', JArray [JString ''a.heptio.com'', JNumber 7])])])]"
    by (simp add: is_certificate_update_def)
  have m2: "all_domains
     [(''message_type'', JString ''certificate_update''),
      (''data'', JObject [(''leaf_cert'', JObject
         [(''all_domains'', JArray [JString ''a.heptio.com'', JNumber 7])])])]
     = Inl ''expected string value''"
    by (simp add: all_domains_def jq_ArrayOfStrings_def)
  have c': "handle_event (\<lambda>domain. True) (\<lambda>url text. []) ''hook''
     [(''message_type'', JString ''certificate_update''),
      (''data'', JObject [(''leaf_cert'', JObject
         [(''all_domains'', JArray [JString ''a.heptio.com'', JNumber 7])])])]
     = [Log ErrorLevel ''couldn't get domains'' [(''error'', ''expected string value'')]]"
    using domains_failure_skips_event [OF m1 m2, of "\<lambda>domain. True" "\<lambda>url text. []" "''hook''" "[]"]
    by (rule conjunct1)
  show ?thesis
    by (rule conjI [OF h1 conjI [OF h2 conjI [OF conjunct1 [OF c] conjI [OF conjunct2 [OF c]
          conjI [OF m2 c']]]]])
qed

subsection \<open>The notification of a matching certificate update\<close>






text \<open>
  C5. The lookup URL of a notification is the fixed prefix \<^verbatim>\<open>https://crt.sh/?q=\<close> followed
  by the fingerprint with every colon removed: the part after the prefix has no colon, and
  the only colon of the URL is that of the scheme.
\<close>

theorem lookup_url_strips_colons:
  assumes "is_certificate_update msg" and "all_domains msg = Inr domains"
    and "\<exists>domain\<in>set domains. domainRegex domain"
    and "fingerprint msg = (fp, err)"
  shows "\<exists>entries stripped.
           filter is_Send (handle_event domainRegex send webhookURL msg) =
             [Send webhookURL (''Found matching certificate for ''
                @ OxfordWordSeries entries ''and'' @ '': '' @ ''https://crt.sh/?q='' @ stripped)]
         \<and> stripped = filter (\<lambda>c. c \<noteq> CHR '':'') fp
         \<and> count_list stripped (CHR '':'') = 0
         \<and> count_list (''https://crt.sh/?q='' @ stripped) (CHR '':'') = 1"
proof -
  let ?stripped = "filter (\<lambda>c. c \<noteq> CHR '':'') fp"
  have "\<exists>entries. filter is_Send (handle_event domainRegex send webhookURL msg) =
          [Send webhookURL (''Found matching certificate for ''
             @ OxfordWordSeries entries ''and'' @ '': '' @ ''https://crt.sh/?q='' @ ?stripped)]"
    using handle_event_sends [OF assms(1,2) matching_filter [OF assms(3)] assms(4) refl refl refl]
    by blast
  moreover have z: "count_list ?stripped (CHR '':'') = 0" by (rule count_list_filter_neq)
  moreover have "count_list (''https://crt.sh/?q='' @ ?stripped) (CHR '':'') = 1"
    using z by simp
  ultimately show ?thesis by blast
qed

theorem lookup_url_strips_colons_witness:
  "is_certificate_update (certificate_update [''a.heptio.com''] (Some ''AA:BB:CC''))
   \<and> all_domains (certificate_update [''a.heptio.com''] (Some ''AA:BB:CC''))
       = Inr [''a.heptio.com'']
   \<and> (\<exists>domain\<in>set [''a.heptio.com'']. literal_MatchString ''heptio'' domain)
   \<and> fingerprint (certificate_update [''a.heptio.com''] (Some ''AA:BB:CC''))
       = (''AA:BB:CC'', None)
   \<and> (\<exists>entries stripped.
         filter is_Send (handle_event (literal_MatchString ''heptio'') (\<lambda>url text. []) ''hook''
           (certificate_update [''a.heptio.com''] (Some ''AA:BB:CC''))) =
           [Send ''hook'' (''Found matching certificate for ''
              @ OxfordWordSeries entries ''and'' @ '': '' @ ''https://crt.sh/?q='' @ stripped)]
         \<and> stripped = ''AABBCC''
         \<and> count_list stripped (CHR '':'') = 0
         \<and> count_list (''https://crt.sh/?q='' @ stripped) (CHR '':'') = 1)"
proof -
  have h1: "is_certificate_update (certificate_update [''a.heptio.com''] (Some ''AA:BB:CC''))"
    by (rule certificate_update_is)
  have h2: "all_domains (certificate_update [''a.heptio.com''] (Some ''AA:BB:CC''))
       = Inr [''a.heptio.com'']"
    by (rule certificate_update_domains)
  have h3: "\<exists>domain\<in>set [''a.heptio.com'']. literal_MatchString ''heptio'' domain"
    by code_simp
  have h4: "fingerprint (certificate_update [''a.heptio.com''] (Some ''AA:BB:CC''))
       = (''AA:BB:CC'', None)"
    by (rule certificate_update_fingerprint)
  have s: "filter (\<lambda>c. c \<noteq> CHR '':'') ''AA:BB:CC'' = ''AABBCC''"
    by simp
  have c: "\<exists>entries stripped.
         filter is_Send (handle_event (literal_MatchString ''heptio'') (\<lambda>url text. []) ''hook''
           (certificate_update [''a.heptio.com''] (Some ''AA:BB:CC''))) =
           [Send ''hook'' (''Found matching certificate for ''
              @ OxfordWordSeries entries ''and'' @ '': '' @ ''https://crt.sh/?q='' @ stripped)]
         \<and> stripped = ''AABBCC''
         \<and> count_list stripped (CHR '':'') = 0
         \<and> count_list (''https://crt.sh/?q='' @ stripped) (CHR '':'') = 1"
    using lookup_url_strips_colons [OF h1 h2 h3 h4, of "\<lambda>url text. []" "''hook''"]
    unfolding s .
  show ?thesis by (rule conjI [OF h1 conjI [OF h2 conjI [OF h3 conjI [OF h4 c]]]])
qed

text \<open>
  C6, as amended. The text of a notification is \<^verbatim>\<open>Found matching certificate for\<close>, the
  series, a colon and a space, and the URL, where the series joins the domain list of the
  event: the sorted matches, followed by the entry for the other domains if there are any.
  One entry is rendered alone, two entries are joined by \<^verbatim>\<open>and\<close> alone, and three or more
  are separated by commas with \<^verbatim>\<open>, and\<close> before the last one. For the domains
  \<^verbatim>\<open>a.heptio.com\<close>, \<^verbatim>\<open>b.other.com\<close>, \<^verbatim>\<open>c.heptio.com\<close>, the pattern \<^verbatim>\<open>heptio\<close> and the
  fingerprint \<^verbatim>\<open>AA:BB:CC\<close> the series has three entries (two matches and \<^verbatim>\<open>1 others\<close>), so
  it has commas.
\<close>

theorem notification_text:
  assumes "is_certificate_update msg" and "all_domains msg = Inr domains"
    and "\<exists>domain\<in>set domains. domainRegex domain"
    and "fingerprint msg = (fp, err)"
    and "matches = sort (map backticks (filter domainRegex domains))"
    and "entries = (if length matches < length domains
                    then matches @ [decimal (length domains - length matches) @ '' others'']
                    else matches)"
  shows "filter is_Send (handle_event domainRegex send webhookURL msg) =
           [Send webhookURL (''Found matching certificate for ''
              @ OxfordWordSeries entries ''and'' @ '': ''
              @ ''https://crt.sh/?q='' @ filter (\<lambda>c. c \<noteq> CHR '':'') fp)]
       \<and> OxfordWordSeries [a] ''and'' = a
       \<and> OxfordWordSeries [a, b] ''and'' = a @ '' and '' @ b
       \<and> OxfordWordSeries [a, b, c] ''and'' = a @ '', '' @ b @ '', and '' @ c
       \<and> OxfordWordSeries (a # b # c # ws) ''and'' =
           strings_Join (butlast (a # b # c # ws)) '', '' @ '', and '' @ last (a # b # c # ws)
       \<and> filter is_Send (handle_event (literal_MatchString ''heptio'') send webhookURL
           (certificate_update [''a.heptio.com'', ''b.other.com'', ''c.heptio.com'']
              (Some ''AA:BB:CC''))) =
           [Send webhookURL
              ''Found matching certificate for `a.heptio.com`, `c.heptio.com`, and 1 others: https://crt.sh/?q=AABBCC'']"
proof -
  have len: "length matches = length (filter domainRegex domains)"
    by (simp add: assms(5))
  have general: "filter is_Send (handle_event domainRegex send webhookURL msg) =
           [Send webhookURL (''Found matching certificate for ''
              @ OxfordWordSeries entries ''and'' @ '': ''
              @ ''https://crt.sh/?q='' @ filter (\<lambda>c. c \<noteq> CHR '':'') fp)]"
    by (rule handle_event_sends [OF assms(1,2) matching_filter [OF assms(3)] assms(4,5)
          assms(6) [unfolded len] refl])
  have one: "OxfordWordSeries [a] ''and'' = a"
    by (rule OxfordWordSeries_one)
  have two: "OxfordWordSeries [a, b] ''and'' = a @ '' and '' @ b"
    by (simp add: OxfordWordSeries_two)
  have three: "OxfordWordSeries [a, b, c] ''and'' = a @ '', '' @ b @ '', and '' @ c"
    by (simp add: OxfordWordSeries_more)
  have more: "OxfordWordSeries (a # b # c # ws) ''and'' =
           strings_Join (butlast (a # b # c # ws)) '', '' @ '', and '' @ last (a # b # c # ws)"
    by (simp add: OxfordWordSeries_more)
  have m: "filter (literal_MatchString ''heptio'')
             [''a.heptio.com'', ''b.other.com'', ''c.heptio.com''] \<noteq> []"
    by code_simp
  have t: "''Found matching certificate for ''
             @ OxfordWordSeries
                 (if length (filter (literal_MatchString ''heptio'')
                       [''a.heptio.com'', ''b.other.com'', ''c.heptio.com''])
                     < length [''a.heptio.com'', ''b.other.com'', ''c.heptio.com'']
                  then sort (map backticks (filter (literal_MatchString ''heptio'')
                         [''a.heptio.com'', ''b.other.com'', ''c.heptio.com'']))
                       @ [decimal (length [''a.heptio.com'', ''b.other.com'', ''c.heptio.com'']
                            - length (filter (literal_MatchString ''heptio'')
                                [''a.heptio.com'', ''b.other.com'', ''c.heptio.com''])) @ '' others'']
                  else sort (map backticks (filter (literal_MatchString ''heptio'')
                         [''a.heptio.com'', ''b.other.com'', ''c.heptio.com''])))
                 ''and''
             @ '': '' @ ''https://crt.sh/?q='' @ filter (\<lambda>c. c \<noteq> CHR '':'') ''AA:BB:CC''
           = ''Found matching certificate for `a.heptio.com`, `c.heptio.com`, and 1 others: https://crt.sh/?q=AABBCC''"
    by code_simp
  have example: "filter is_Send (handle_event (literal_MatchString ''heptio'') send webhookURL
           (certificate_update [''a.heptio.com'', ''b.other.com'', ''c.heptio.com'']
              (Some ''AA:BB:CC''))) =
           [Send webhookURL
              ''Found matching certificate for `a.heptio.com`, `c.heptio.com`, and 1 others: https://crt.sh/?q=AABBCC'']"
    using handle_event_sends [OF certificate_update_is certificate_update_domains m
        certificate_update_fingerprint [of _ "''AA:BB:CC''"] refl refl refl, of send webhookURL]
    unfolding t .
  show ?thesis
    by (rule conjI [OF general conjI [OF one conjI [OF two conjI [OF three conjI [OF more example]]]]])
qed

theorem notification_text_witness:
  "is_certificate_update (certificate_update [''b.heptio.com'', ''a.heptio.com''] (Some ''AA:BB''))
   \<and> all_domains (certificate_update [''b.heptio.com'', ''a.heptio.com''] (Some ''AA:BB''))
       = Inr [''b.heptio.com'', ''a.heptio.com'']
   \<and> (\<exists>domain\<in>set [''b.heptio.com'', ''a.heptio.com'']. literal_MatchString ''heptio'' domain)
   \<and> fingerprint (certificate_update [''b.heptio.com'', ''a.heptio.com''] (Some ''AA:BB''))
       = (''AA:BB'', None)
   \<and> [''`a.heptio.com`'', ''`b.heptio.com`'']
       = sort (map backticks (filter (literal_MatchString ''heptio'')
           [''b.heptio.com'', ''a.heptio.com'']))
   \<and> filter is_Send (handle_event (literal_MatchString ''heptio'') (\<lambda>url text. []) ''hook''
         (certificate_update [''b.heptio.com'', ''a.heptio.com''] (Some ''AA:BB''))) =
         [Send ''hook'' (''Found matching certificate for ''
            @ OxfordWordSeries [''`a.heptio.com`'', ''`b.heptio.com`''] ''and'' @ '': ''
            @ ''https://crt.sh/?q='' @ filter (\<lambda>c. c \<noteq> CHR '':'') ''AA:BB'')]
   \<and> OxfordWordSeries [''x''] ''and'' = ''x''
   \<and> OxfordWordSeries [''x'', ''y''] ''and'' = ''x'' @ '' and '' @ ''y''
   \<and> OxfordWordSeries [''x'', ''y'', ''z''] ''and'' = ''x'' @ '', '' @ ''y'' @ '', and '' @ ''z''
   \<and> filter is_Send (handle_event (literal_MatchString ''heptio'') (\<lambda>url text. []) ''hook''
         (certificate_update [''a.heptio.com'', ''b.other.com'', ''c.heptio.com'']
            (Some ''AA:BB:CC''))) =
         [Send ''hook''
            ''Found matching certificate for `a.heptio.com`, `c.heptio.com`, and 1 others: https://crt.sh/?q=AABBCC'']"
proof -
  have h1: "is_certificate_update
      (certificate_update [''b.heptio.com'', ''a.heptio.com''] (Some ''AA:BB''))"
    by (rule certificate_update_is)
  have h2: "all_domains (certificate_update [''b.heptio.com'', ''a.heptio.com''] (Some ''AA:BB''))
       = Inr [''b.heptio.com'', ''a.heptio.com'']"
    by (rule certificate_update_domains)
  have h3: "\<exists>domain\<in>set [''b.heptio.com'', ''a.heptio.com'']. literal_MatchString ''heptio'' domain"
    by code_simp
  have h4: "fingerprint (certificate_update [''b.heptio.com'', ''a.heptio.com''] (Some ''AA:BB''))
       = (''AA:BB'', None)"
    by (rule certificate_update_fingerprint)
  have h5: "[''`a.heptio.com`'', ''`b.heptio.com`'']
       = sort (map backticks (filter (literal_MatchString ''heptio'')
           [''b.heptio.com'', ''a.heptio.com'']))"
    by code_simp
  have h6: "[''`a.heptio.com`'', ''`b.heptio.com`'']
       = (if length [''`a.heptio.com`'', ''`b.heptio.com`'']
             < length [''b.heptio.com'', ''a.heptio.com'']
          then [''`a.heptio.com`'', ''`b.heptio.com`'']
                 @ [decimal (length [''b.heptio.com'', ''a.heptio.com'']
                      - length [''`a.heptio.com`'', ''`b.heptio.com`'']) @ '' others'']
          else [''`a.heptio.com`'', ''`b.heptio.com`''])"
    by simp
  note t = notification_text [OF h1 h2 h3 h4 h5 h6,
      of "\<lambda>url text. []" "''hook''" "''x''" "''y''" "''z''" "[]"]
  have c1: "filter is_Send (handle_event (literal_MatchString ''heptio'') (\<lambda>url text. []) ''hook''
         (certificate_update [''b.heptio.com'', ''a.heptio.com''] (Some ''AA:BB''))) =
         [Send ''hook'' (''Found matching certificate for ''
            @ OxfordWordSeries [''`a.heptio.com`'', ''`b.heptio.com`''] ''and'' @ '': ''
            @ ''https://crt.sh/?q='' @ filter (\<lambda>c. c \<noteq> CHR '':'') ''AA:BB'')]"
    using t by (rule conjunct1)
  have c2: "OxfordWordSeries [''x''] ''and'' = ''x''"
    using t by blast
  have c3: "OxfordWordSeries [''x'', ''y''] ''and'' = ''x'' @ '' and '' @ ''y''"
    using t by blast
  have c4: "OxfordWordSeries [''x'', ''y'', ''z''] ''and'' = ''x'' @ '', '' @ ''y'' @ '', and '' @ ''z''"
    using t by blast
  have c5: "filter is_Send (handle_event (literal_MatchString ''heptio'') (\<lambda>url text. []) ''hook''
         (certificate_update [''a.heptio.com'', ''b.other.com'', ''c.heptio.com'']
            (Some ''AA:BB:CC''))) =
         [Send ''hook''
            ''Found matching certificate for `a.heptio.com`, `c.heptio.com`, and 1 others: https://crt.sh/?q=AABBCC'']"
    using t by blast
  show ?thesis
    by (rule conjI [OF h1 conjI [OF h2 conjI [OF h3 conjI [OF h4 conjI [OF h5 conjI [OF c1
          conjI [OF c2 conjI [OF c3 conjI [OF c4 c5]]]]]]]]])
qed

text \<open>
  C6 as stated gives the text of the example with \<^verbatim>\<open>and\<close> between the first two entries
  and no comma; the text that is sent does not end that way.
\<close>

theorem example_text_counterexample:
  "handle_event (literal_MatchString ''heptio'') (\<lambda>url text. []) ''hook''
     (certificate_update [''a.heptio.com'', ''b.other.com'', ''c.heptio.com''] (Some ''AA:BB:CC''))
     = [Send ''hook''
         ''Found matching certificate for `a.heptio.com`, `c.heptio.com`, and 1 others: https://crt.sh/?q=AABBCC'']
   \<and> \<not> suffix ''`a.heptio.com` and `c.heptio.com` and 1 others: https://crt.sh/?q=AABBCC''
         ''Found matching certificate for `a.heptio.com`, `c.heptio.com`, and 1 others: https://crt.sh/?q=AABBCC''"
  by code_simp

text \<open>
  C7. For a matching certificate update whose fingerprint cannot be extracted, the error is
  logged at the error level and the notification is sent all the same, built with the
  empty fingerprint: its URL is the bare prefix \<^verbatim>\<open>https://crt.sh/?q=\<close>.
\<close>

theorem fingerprint_failure_still_notifies:
  assumes "is_certificate_update msg" and "all_domains msg = Inr domains"
    and "\<exists>domain\<in>set domains. domainRegex domain"
    and "snd (fingerprint msg) = Some e"
  shows "\<exists>entries text.
           text = ''Found matching certificate for '' @ OxfordWordSeries entries ''and''
                    @ '': '' @ ''https://crt.sh/?q=''
         \<and> handle_event domainRegex send webhookURL msg =
             [Log ErrorLevel ''could not parse fingerprint from matching certificate''
                [(''error'', e)],
              Send webhookURL text]
             @ map (\<lambda>e'. Log ErrorLevel ''error sending webhook''
                           [(''error'', e'), (''fingerprint'', '''')])
                 (send webhookURL text)"
proof -
  obtain fp where fp: "fingerprint msg = (fp, Some e)"
    using assms(4) by (cases "fingerprint msg") simp
  then have "fp = ''''" unfolding fingerprint_def by (rule jq_String_error)
  with fp have fp': "fingerprint msg = ('''', Some e)" by simp
  let ?entries = "if length (filter domainRegex domains) < length domains
       then sort (map backticks (filter domainRegex domains))
              @ [decimal (length domains - length (filter domainRegex domains)) @ '' others'']
       else sort (map backticks (filter domainRegex domains))"
  let ?text = "''Found matching certificate for '' @ OxfordWordSeries ?entries ''and''
                 @ '': '' @ ''https://crt.sh/?q=''"
  have "handle_event domainRegex send webhookURL msg =
          [Log ErrorLevel ''could not parse fingerprint from matching certificate''
             [(''error'', e)],
           Send webhookURL ?text]
          @ map (\<lambda>e'. Log ErrorLevel ''error sending webhook''
                        [(''error'', e'), (''fingerprint'', '''')])
              (send webhookURL ?text)"
    by (simp add: handle_event_match [OF assms(1,2) matching_filter [OF assms(3)] fp' refl refl refl])
  then show ?thesis by blast
qed

theorem fingerprint_failure_still_notifies_witness:
  "is_certificate_update (certificate_update [''a.heptio.com''] None)
   \<and> all_domains (certificate_update [''a.heptio.com''] None) = Inr [''a.heptio.com'']
   \<and> (\<exists>domain\<in>set [''a.heptio.com'']. literal_MatchString ''heptio'' domain)
   \<and> snd (fingerprint (certificate_update [''a.heptio.com''] None))
       = Some ''object does not contain field''
   \<and> (\<exists>entries text.
         text = ''Found matching certificate for '' @ OxfordWordSeries entries ''and''
                  @ '': '' @ ''https://crt.sh/?q=''
         \<and> handle_event (literal_MatchString ''heptio'') (\<lambda>url text. [''503'']) ''hook''
             (certificate_update [''a.heptio.com''] None) =
             [Log ErrorLevel ''could not parse fingerprint from matching certificate''
                [(''error'', ''object does not contain field'')],
              Send ''hook'' text]
             @ map (\<lambda>e'. Log ErrorLevel ''error sending webhook''
                           [(''error'', e'), (''fingerprint'', '''')])
                 [''503''])"
proof -
  have h1: "is_certificate_update (certificate_update [''a.heptio.com''] None)"
    by (rule certificate_update_is)
  have h2: "all_domains (certificate_update [''a.heptio.com''] None) = Inr [''a.heptio.com'']"
    by (rule certificate_update_domains)
  have h3: "\<exists>domain\<in>set [''a.heptio.com'']. literal_MatchString ''heptio'' domain"
    by code_simp
  have h4: "snd (fingerprint (certificate_update [''a.heptio.com''] None))
       = Some ''object does not contain field''"
    by (simp add: certificate_update_no_fingerprint)
  have c: "\<exists>entries text.
         text = ''Found matching certificate for '' @ OxfordWordSeries entries ''and''
                  @ '': '' @ ''https://crt.sh/?q=''
         \<and> handle_event (literal_MatchString ''heptio'') (\<lambda>url text. [''503'']) ''hook''
             (certificate_update [''a.heptio.com''] None) =
             [Log ErrorLevel ''could not parse fingerprint from matching certificate''
                [(''error'', ''object does not contain field'')],
              Send ''hook'' text]
             @ map (\<lambda>e'. Log ErrorLevel ''error sending webhook''
                           [(''error'', e'), (''fingerprint'', '''')])
                 [''503'']"
    using fingerprint_failure_still_notifies [OF h1 h2 h3 h4, of "\<lambda>url text. [''503'']" "''hook''"]
    by blast
  show ?thesis by (rule conjI [OF h1 conjI [OF h2 conjI [OF h3 conjI [OF h4 c]]]])
qed

text \<open>
  C10. Every notification that is sent names a matching domain: the series is not empty
  and its first entry, with which the series begins, is a domain of the event that matches
  the pattern, wrapped in backticks. So the series never consists of the entry for the
  other domains alone.
\<close>

theorem notification_names_a_match:
  assumes "Send url text \<in> set (handle_event domainRegex send webhookURL msg)"
  shows "\<exists>domains domain entries certURL rest.
           all_domains msg = Inr domains \<and> domain \<in> set domains \<and> domainRegex domain
         \<and> text = ''Found matching certificate for '' @ OxfordWordSeries entries ''and''
                    @ '': '' @ certURL
         \<and> entries \<noteq> [] \<and> hd entries = backticks domain
         \<and> OxfordWordSeries entries ''and'' = backticks domain @ rest"
proof (cases rule: handle_event_cases [of domainRegex send webhookURL msg])
  case skip
  with assms show ?thesis by simp
next
  case (error err)
  with assms show ?thesis by simp
next
  case (match domains fp err)
  define matches where "matches = sort (map backticks (filter domainRegex domains))"
  define entries where "entries = (if length (filter domainRegex domains) < length domains
       then matches @ [decimal (length domains - length (filter domainRegex domains)) @ '' others'']
       else matches)"
  define certURL where "certURL = ''https://crt.sh/?q='' @ filter (\<lambda>c. c \<noteq> CHR '':'') fp"
  define text' where "text' = ''Found matching certificate for '' @ OxfordWordSeries entries ''and''
                 @ '': '' @ certURL"
  define pre where "pre = (case err of
              Some e \<Rightarrow> [Log ErrorLevel ''could not parse fingerprint from matching certificate''
                           [(''error'', e)]]
            | None \<Rightarrow> [])"
  have he: "handle_event domainRegex send webhookURL msg =
      pre @ [Send webhookURL text']
       @ map (\<lambda>e. Log ErrorLevel ''error sending webhook'' [(''error'', e), (''fingerprint'', fp)])
           (send webhookURL text')"
    unfolding pre_def text'_def certURL_def
    by (rule handle_event_match [OF match matches_def entries_def refl])
  have pl: "\<forall>x\<in>set pre. is_Log x"
    by (cases err) (simp_all add: pre_def)
  have "url = webhookURL \<and> text = text'"
    using assms unfolding he by (rule Send_in_match [OF _ pl])
  then have "text = text'" ..
  then have t: "text = ''Found matching certificate for '' @ OxfordWordSeries entries ''and''
                    @ '': '' @ certURL"
    by (simp only: text'_def)
  have "length matches = length (filter domainRegex domains)"
    by (simp add: matches_def)
  with match(3) have ne: "matches \<noteq> []"
    by auto
  then have nee: "entries \<noteq> []" and hd: "hd entries = hd matches"
    by (simp_all add: entries_def)
  have "hd matches \<in> set matches"
    using ne by (rule hd_in_set)
  then have "hd matches \<in> backticks ` {d \<in> set domains. domainRegex d}"
    by (simp add: matches_def)
  then obtain domain where d: "domain \<in> set domains" "domainRegex domain"
      and hm: "hd matches = backticks domain"
    by blast
  obtain rest where "OxfordWordSeries entries ''and'' = hd entries @ rest"
    using OxfordWordSeries_hd [OF nee] by blast
  then have r: "OxfordWordSeries entries ''and'' = backticks domain @ rest"
    by (simp only: hd hm)
  have hde: "hd entries = backticks domain"
    by (simp only: hd hm)
  show ?thesis
    by (intro exI [of _ domains] exI [of _ domain] exI [of _ entries] exI [of _ certURL]
        exI [of _ rest] conjI) (fact match(2) d t nee hde r)+
qed

theorem notification_names_a_match_witness:
  "Send ''hook'' ''Found matching certificate for `a.heptio.com` and 1 others: https://crt.sh/?q=AABB''
     \<in> set (handle_event (literal_MatchString ''heptio'') (\<lambda>url text. []) ''hook''
              (certificate_update [''b.other.com'', ''a.heptio.com''] (Some ''AA:BB'')))
   \<and> (\<exists>domains domain entries certURL rest.
         all_domains (certificate_update [''b.other.com'', ''a.heptio.com''] (Some ''AA:BB''))
           = Inr domains
       \<and> domain \<in> set domains \<and> literal_MatchString ''heptio'' domain
       \<and> ''Found matching certificate for `a.heptio.com` and 1 others: https://crt.sh/?q=AABB''
           = ''Found matching certificate for '' @ OxfordWordSeries entries ''and''
               @ '': '' @ certURL
       \<and> entries \<noteq> [] \<and> hd entries = backticks domain
       \<and> OxfordWordSeries entries ''and'' = backticks domain @ rest)"
proof -
  have h: "Send ''hook'' ''Found matching certificate for `a.heptio.com` and 1 others: https://crt.sh/?q=AABB''
     \<in> set (handle_event (literal_MatchString ''heptio'') (\<lambda>url text. []) ''hook''
              (certificate_update [''b.other.com'', ''a.heptio.com''] (Some ''AA:BB'')))"
    by code_simp
  show ?thesis
    by (rule conjI [OF h notification_names_a_match [OF h]])
qed

subsection \<open>The fatal conditions\<close>

lemma loop_exit_status:
  "objects_only feed \<Longrightarrow>
   exit_status (loop re send url feed) = (if \<exists>r\<in>set feed. isl r then Some 1 else None)"
proof (induction feed)
  case Nil
  show ?case by simp
next
  case (Cons r feed)
  show ?case
  proof (cases r)
    case (Inl err)
    then show ?thesis by (simp add: log_Fatal_def)
  next
    case (Inr msg)
    with Cons.prems obtain kvs where "msg = JObject kvs" and "objects_only feed"
      by (cases msg) (simp_all add: objects_only_def)
    with Inr Cons.IH show ?thesis
      by (simp add: exit_status_append handle_event_exit_status)
  qed
qed

lemma loop_fatal_last:
  "exit_status (loop re send url feed) = Some 1 \<Longrightarrow>
   (\<exists>r\<in>set feed. isl r) \<and>
   (\<exists>tr err. loop re send url feed =
      tr @ [Log FatalLevel ''error decoding JSON'' [(''error'', err)], Exit 1]
    \<and> exit_status tr = None)"
proof (induction feed)
  case Nil
  then show ?case by simp
next
  case (Cons r feed)
  show ?case
  proof (cases r)
    case (Inl err)
    then have "loop re send url (r # feed) =
        [] @ [Log FatalLevel ''error decoding JSON'' [(''error'', err)], Exit 1]"
      by (simp add: log_Fatal_def)
    moreover have "exit_status [] = None" by simp
    moreover have "\<exists>r'\<in>set (r # feed). isl r'" using Inl by simp
    ultimately show ?thesis by blast
  next
    case (Inr msg)
    show ?thesis
    proof (cases "NewQuery msg")
      case None
      with Inr Cons.prems show ?thesis by (simp add: go_panic_def)
    next
      case (Some jq)
      with Inr have l: "loop re send url (r # feed) =
          handle_event re send url jq @ loop re send url feed"
        by simp
      with Cons.prems have "exit_status (loop re send url feed) = Some 1"
        by (simp add: exit_status_append handle_event_exit_status)
      then obtain tr err where e: "\<exists>r\<in>set feed. isl r"
        and tr: "loop re send url feed =
          tr @ [Log FatalLevel ''error decoding JSON'' [(''error'', err)], Exit 1]"
        and n: "exit_status tr = None"
        using Cons.IH by blast
      have "loop re send url (r # feed) =
          (handle_event re send url jq @ tr)
            @ [Log FatalLevel ''error decoding JSON'' [(''error'', err)], Exit 1]"
        using l tr by simp
      moreover have "exit_status (handle_event re send url jq @ tr) = None"
        using n by (simp add: exit_status_append handle_event_exit_status)
      moreover have "\<exists>r'\<in>set (r # feed). isl r'" using e by simp
      ultimately show ?thesis by blast
    qed
  qed
qed

lemma main_exit_status:
  "objects_only (ReadJSON w) \<Longrightarrow>
   exit_status (main w) =
     (if Getenv w ''SLACK_WEBHOOK_URL'' = '''' \<or> Getenv w ''DOMAIN_PATTERN'' = ''''
         \<or> isl (regexp_Compile w (Getenv w ''DOMAIN_PATTERN''))
         \<or> Dial w certStreamURL \<noteq> None
         \<or> (\<exists>r\<in>set (ReadJSON w). isl r)
      then Some 1 else None)"
  by (simp add: main_def Let_def log_Fatal_def loop_exit_status split: sum.splits option.splits)

lemma fatal_last: "\<exists>tr. log_Fatal msg kvs = tr @ [Log FatalLevel msg kvs, Exit 1]
    \<and> exit_status tr = None"
  by (simp add: log_Fatal_def)

lemma main_fatal_last:
  assumes "exit_status (main w) = Some 1"
  shows "(Getenv w ''SLACK_WEBHOOK_URL'' = '''' \<or> Getenv w ''DOMAIN_PATTERN'' = ''''
         \<or> isl (regexp_Compile w (Getenv w ''DOMAIN_PATTERN''))
         \<or> Dial w certStreamURL \<noteq> None
         \<or> (\<exists>r\<in>set (ReadJSON w). isl r))
       \<and> (\<exists>tr msg kvs. main w = tr @ [Log FatalLevel msg kvs, Exit 1]
           \<and> exit_status tr = None)"
proof -
  consider (webhook) "Getenv w ''SLACK_WEBHOOK_URL'' = ''''"
    | (pattern) "Getenv w ''SLACK_WEBHOOK_URL'' \<noteq> ''''" "Getenv w ''DOMAIN_PATTERN'' = ''''"
    | (compile) err where "Getenv w ''SLACK_WEBHOOK_URL'' \<noteq> ''''"
        "Getenv w ''DOMAIN_PATTERN'' \<noteq> ''''"
        "regexp_Compile w (Getenv w ''DOMAIN_PATTERN'') = Inl err"
    | (dial) re err where "Getenv w ''SLACK_WEBHOOK_URL'' \<noteq> ''''"
        "Getenv w ''DOMAIN_PATTERN'' \<noteq> ''''"
        "regexp_Compile w (Getenv w ''DOMAIN_PATTERN'') = Inr re"
        "Dial w certStreamURL = Some err"
    | (running) re where "Getenv w ''SLACK_WEBHOOK_URL'' \<noteq> ''''"
        "Getenv w ''DOMAIN_PATTERN'' \<noteq> ''''"
        "regexp_Compile w (Getenv w ''DOMAIN_PATTERN'') = Inr re"
        "Dial w certStreamURL = None"
    by (cases "regexp_Compile w (Getenv w ''DOMAIN_PATTERN'')"; cases "Dial w certStreamURL") auto
  then show ?thesis
  proof cases
    case webhook
    then have "main w = log_Fatal ''SLACK_WEBHOOK_URL must be set'' []"
      by (simp add: main_def)
    then have "\<exists>tr msg kvs. main w = tr @ [Log FatalLevel msg kvs, Exit 1]
           \<and> exit_status tr = None"
      using fatal_last by metis
    with webhook show ?thesis by blast
  next
    case pattern
    then have "main w = log_Fatal ''DOMAIN_PATTERN must be set'' []"
      by (simp add: main_def)
    then have "\<exists>tr msg kvs. main w = tr @ [Log FatalLevel msg kvs, Exit 1]
           \<and> exit_status tr = None"
      using fatal_last by metis
    with pattern show ?thesis by blast
  next
    case compile
    then have "main w = log_Fatal ''invalid DOMAIN_PATTERN'' [(''error'', err)]"
      by (simp add: main_def)
    then have "\<exists>tr msg kvs. main w = tr @ [Log FatalLevel msg kvs, Exit 1]
           \<and> exit_status tr = None"
      using fatal_last by metis
    moreover have "isl (regexp_Compile w (Getenv w ''DOMAIN_PATTERN''))"
      using compile(3) by simp
    ultimately show ?thesis by blast
  next
    case dial
    then have "main w = log_Fatal ''could not connect to certstream'' [(''error'', err)]"
      by (simp add: main_def)
    then have "\<exists>tr msg kvs. main w = tr @ [Log FatalLevel msg kvs, Exit 1]
           \<and> exit_status tr = None"
      using fatal_last by metis
    moreover have "Dial w certStreamURL \<noteq> None"
      using dial(4) by simp
    ultimately show ?thesis by blast
  next
    case running
    let ?info = "Log InfoLevel ''watching for certificates''
                   [(''domainPattern'', Getenv w ''DOMAIN_PATTERN'')]"
    let ?loop = "loop re (slack_Send w) (Getenv w ''SLACK_WEBHOOK_URL'') (ReadJSON w)"
    from running have m: "main w = ?info # ?loop"
      by (simp add: main_def)
    have "exit_status ?loop = Some 1"
      using assms unfolding m by simp
    then obtain tr err where e: "\<exists>r\<in>set (ReadJSON w). isl r"
      and tr: "?loop =
        tr @ [Log FatalLevel ''error decoding JSON'' [(''error'', err)], Exit 1]"
      and n: "exit_status tr = None"
      using loop_fatal_last by blast
    have "main w = (?info # tr) @ [Log FatalLevel ''error decoding JSON'' [(''error'', err)], Exit 1]"
      unfolding m tr by simp
    moreover have "exit_status (?info # tr) = None"
      using n by simp
    ultimately have "\<exists>tr msg kvs. main w = tr @ [Log FatalLevel msg kvs, Exit 1]
           \<and> exit_status tr = None"
      by blast
    with e show ?thesis by blast
  qed
qed

text \<open>
  C9, as amended. As long as every value decoded from the feed is a JSON object, the
  process exits exactly when one of the two environment variables is empty, the pattern
  does not compile, the feed cannot be dialled, or a read of the feed fails. Whatever the
  feed delivers, an exit with status 1 happens only under one of these four conditions,
  and the last entry logged before it is at the fatal level. An iteration never exits,
  whatever the webhook returns: after the call of the webhook each error it returned is
  logged at the error level and the loop goes on with the rest of the feed.
\<close>

theorem fatal_conditions:
  "(objects_only (ReadJSON w) \<longrightarrow>
      exit_status (main w) =
        (if Getenv w ''SLACK_WEBHOOK_URL'' = '''' \<or> Getenv w ''DOMAIN_PATTERN'' = ''''
            \<or> isl (regexp_Compile w (Getenv w ''DOMAIN_PATTERN''))
            \<or> Dial w certStreamURL \<noteq> None
            \<or> (\<exists>r\<in>set (ReadJSON w). isl r)
         then Some 1 else None))
   \<and> (exit_status (main w) = Some 1 \<longrightarrow>
        (Getenv w ''SLACK_WEBHOOK_URL'' = '''' \<or> Getenv w ''DOMAIN_PATTERN'' = ''''
            \<or> isl (regexp_Compile w (Getenv w ''DOMAIN_PATTERN''))
            \<or> Dial w certStreamURL \<noteq> None
            \<or> (\<exists>r\<in>set (ReadJSON w). isl r))
        \<and> (\<exists>tr msg kvs. main w = tr @ [Log FatalLevel msg kvs, Exit 1]
             \<and> exit_status tr = None))
   \<and> exit_status (handle_event domainRegex send webhookURL ev) = None
   \<and> loop domainRegex send webhookURL (Inr (JObject ev) # feed) =
        handle_event domainRegex send webhookURL ev @ loop domainRegex send webhookURL feed
   \<and> (is_certificate_update ev \<longrightarrow> all_domains ev = Inr domains \<longrightarrow>
        (\<exists>domain\<in>set domains. domainRegex domain) \<longrightarrow>
        (\<exists>pre text. handle_event domainRegex send webhookURL ev =
           pre @ [Send webhookURL text]
             @ map (\<lambda>e. Log ErrorLevel ''error sending webhook''
                          [(''error'', e), (''fingerprint'', fst (fingerprint ev))])
                 (send webhookURL text)))"
proof -
  have delivery: "\<exists>pre text. handle_event domainRegex send webhookURL ev =
           pre @ [Send webhookURL text]
             @ map (\<lambda>e. Log ErrorLevel ''error sending webhook''
                          [(''error'', e), (''fingerprint'', fst (fingerprint ev))])
                 (send webhookURL text)"
    if "is_certificate_update ev" and "all_domains ev = Inr domains"
      and "\<exists>domain\<in>set domains. domainRegex domain"
    using handle_event_match [OF that(1,2) matching_filter [OF that(3)] prod.collapse [symmetric]
        refl refl refl, of send webhookURL]
    by blast
  have continue: "loop domainRegex send webhookURL (Inr (JObject ev) # feed) =
        handle_event domainRegex send webhookURL ev @ loop domainRegex send webhookURL feed"
    by simp
  show ?thesis
    using main_exit_status [of w] main_fatal_last [of w]
      handle_event_exit_status [of domainRegex send webhookURL ev] continue delivery
    by blast
qed

theorem fatal_conditions_witness:
  "objects_only
      [Inr (JObject (certificate_update [''a.heptio.com''] (Some ''AA:BB''))),
       Inl ''unexpected EOF'']
   \<and> exit_status (main (example_world
      [Inr (JObject (certificate_update [''a.heptio.com''] (Some ''AA:BB''))),
       Inl ''unexpected EOF'']
      (\<lambda>url text. [''503'']))) = Some 1
   \<and> main (example_world
      [Inr (JObject (certificate_update [''a.heptio.com''] (Some ''AA:BB''))),
       Inl ''unexpected EOF'']
      (\<lambda>url text. [''503''])) =
      [Log InfoLevel ''watching for certificates'' [(''domainPattern'', ''heptio'')],
       Send ''hook'' ''Found matching certificate for `a.heptio.com`: https://crt.sh/?q=AABB'',
       Log ErrorLevel ''error sending webhook'' [(''error'', ''503''), (''fingerprint'', ''AA:BB'')],
       Log FatalLevel ''error decoding JSON'' [(''error'', ''unexpected EOF'')],
       Exit 1]
   \<and> objects_only [Inr (JObject (certificate_update [''a.heptio.com''] (Some ''AA:BB'')))]
   \<and> exit_status (main (example_world
      [Inr (JObject (certificate_update [''a.heptio.com''] (Some ''AA:BB'')))]
      (\<lambda>url text. [''503'']))) = None"
proof -
  let ?bad = "example_world
      [Inr (JObject (certificate_update [''a.heptio.com''] (Some ''AA:BB''))),
       Inl ''unexpected EOF'']
      (\<lambda>url text. [''503''])"
  let ?good = "example_world
      [Inr (JObject (certificate_update [''a.heptio.com''] (Some ''AA:BB'')))]
      (\<lambda>url text. [''503''])"
  have o1: "objects_only
      [Inr (JObject (certificate_update [''a.heptio.com''] (Some ''AA:BB''))),
       Inl ''unexpected EOF'']"
    by (simp add: objects_only_def)
  have o2: "objects_only [Inr (JObject (certificate_update [''a.heptio.com''] (Some ''AA:BB'')))]"
    by (simp add: objects_only_def)
  have ob: "objects_only (ReadJSON ?bad)"
    using o1 by (simp add: example_world_def)
  have og: "objects_only (ReadJSON ?good)"
    using o2 by (simp add: example_world_def)
  have bad: "(Getenv ?bad ''SLACK_WEBHOOK_URL'' = '''' \<or> Getenv ?bad ''DOMAIN_PATTERN'' = ''''
         \<or> isl (regexp_Compile ?bad (Getenv ?bad ''DOMAIN_PATTERN''))
         \<or> Dial ?bad certStreamURL \<noteq> None
         \<or> (\<exists>r\<in>set (ReadJSON ?bad). isl r)) = True"
    by (simp add: example_world_def)
  have good: "(Getenv ?good ''SLACK_WEBHOOK_URL'' = '''' \<or> Getenv ?good ''DOMAIN_PATTERN'' = ''''
         \<or> isl (regexp_Compile ?good (Getenv ?good ''DOMAIN_PATTERN''))
         \<or> Dial ?good certStreamURL \<noteq> None
         \<or> (\<exists>r\<in>set (ReadJSON ?good). isl r)) = False"
    by (simp add: example_world_def)
  have e1: "exit_status (main ?bad) = Some 1"
    using mp [OF conjunct1 [OF fatal_conditions [of ?bad]] ob] unfolding bad
    by (simp only: if_True)
  have e2: "exit_status (main ?good) = None"
    using mp [OF conjunct1 [OF fatal_conditions [of ?good]] og] unfolding good
    by (simp only: if_False)
  have tr: "main ?bad =
      [Log InfoLevel ''watching for certificates'' [(''domainPattern'', ''heptio'')],
       Send ''hook'' ''Found matching certificate for `a.heptio.com`: https://crt.sh/?q=AABB'',
       Log ErrorLevel ''error sending webhook'' [(''error'', ''503''), (''fingerprint'', ''AA:BB'')],
       Log FatalLevel ''error decoding JSON'' [(''error'', ''unexpected EOF'')],
       Exit 1]"
    by code_simp
  show ?thesis by (rule conjI [OF o1 conjI [OF e1 conjI [OF tr conjI [OF o2 e2]]]])
qed

text \<open>
  C9 as stated counts four conditions that end the process. A value of the feed that
  decodes without error and is not a JSON object, here \<^verbatim>\<open>null\<close>, ends it too: none of the
  four conditions holds, nothing is logged at the fatal level, and the status is 2.
\<close>

theorem fatal_conditions_counterexample:
  "main (example_world [Inr JNull] (\<lambda>url text. [])) =
     [Log InfoLevel ''watching for certificates'' [(''domainPattern'', ''heptio'')], Exit 2]
   \<and> exit_status (main (example_world [Inr JNull] (\<lambda>url text. []))) = Some 2
   \<and> \<not> (Getenv (example_world [Inr JNull] (\<lambda>url text. [])) ''SLACK_WEBHOOK_URL'' = ''''
        \<or> Getenv (example_world [Inr JNull] (\<lambda>url text. [])) ''DOMAIN_PATTERN'' = ''''
        \<or> isl (regexp_Compile (example_world [Inr JNull] (\<lambda>url text. []))
              (Getenv (example_world [Inr JNull] (\<lambda>url text. [])) ''DOMAIN_PATTERN''))
        \<or> Dial (example_world [Inr JNull] (\<lambda>url text. [])) certStreamURL \<noteq> None
        \<or> (\<exists>r\<in>set (ReadJSON (example_world [Inr JNull] (\<lambda>url text. []))). isl r))"
proof -
  have tr: "main (example_world [Inr JNull] (\<lambda>url text. [])) =
     [Log InfoLevel ''watching for certificates'' [(''domainPattern'', ''heptio'')], Exit 2]"
    by code_simp
  have ex: "exit_status (main (example_world [Inr JNull] (\<lambda>url text. []))) = Some 2"
    unfolding tr by simp
  have no: "\<not> (Getenv (example_world [Inr JNull] (\<lambda>url text. [])) ''SLACK_WEBHOOK_URL'' = ''''
        \<or> Getenv (example_world [Inr JNull] (\<lambda>url text. [])) ''DOMAIN_PATTERN'' = ''''
        \<or> isl (regexp_Compile (example_world [Inr JNull] (\<lambda>url text. []))
              (Getenv (example_world [Inr JNull] (\<lambda>url text. [])) ''DOMAIN_PATTERN''))
        \<or> Dial (example_world [Inr JNull] (\<lambda>url text. [])) certStreamURL \<noteq> None
        \<or> (\<exists>r\<in>set (ReadJSON (example_world [Inr JNull] (\<lambda>url text. []))). isl r))"
    by (simp add: example_world_def)
  show ?thesis by (rule conjI [OF tr conjI [OF ex no]])
qed

end
